theory Spec2Isabelle
  imports Main "HOL-Library.Sublist"
begin

section \<open>Data model\<close>

text \<open>
  The script \<^verbatim>\<open>infrastructure/aws/s3_bucket_setup.py\<close> builds Python dictionaries and
  hands them to the S3 client as keyword arguments, and dumps one dictionary as JSON.
  A Python value is a string, an integer, a boolean, a list or a dictionary; a
  dictionary is an association list, so that the order of its keys (the insertion order
  of Python) is kept.
\<close>

datatype pyval =
    PStr string
  | PInt int
  | PBool bool
  | PList "pyval list"
  | PDict "(string \<times> pyval) list"

text \<open>
  A call of a method of the S3 client with its keyword arguments, for example
  \<^verbatim>\<open>s3_client.put_bucket_versioning(Bucket=..., VersioningConfiguration=...)\<close>.
\<close>

datatype api_call = ApiCall (operation: string) (kwargs: "(string \<times> pyval) list")

text \<open>
  \<^verbatim>\<open>botocore.exceptions.ClientError\<close>: the error the provider reports.
  \<open>Code\<close> is \<^verbatim>\<open>e.response['Error']['Code']\<close> and \<open>Text\<close> is \<^verbatim>\<open>str(e)\<close>, which
  the f-strings of the log messages insert.
\<close>

datatype client_error = ClientErrorExn (Code: string) (Text: string)

text \<open>
  What a call of the client does: it returns, it raises \<^verbatim>\<open>ClientError\<close>, or it raises
  some other exception (named by its class). The \<^verbatim>\<open>except\<close> clauses of the script name
  \<^verbatim>\<open>ClientError\<close> only, so any other exception leaves the function that made the call.
\<close>

datatype response = Success | ClientError client_error | Raises string

text \<open>
  The provider is outside the script. It is a parameter of the model: a function that
  answers a call, given the calls made before it (oldest first).
\<close>

type_synonym provider = "api_call list \<Rightarrow> api_call \<Rightarrow> response"

datatype level = INFO | ERROR

text \<open>
  The effects of the script, each oldest first: the calls made to the provider, the log
  records emitted, the files opened for writing (the opening creates or empties the
  file), and the files completely written (path and dumped document). A written file is
  represented by the document given to \<^verbatim>\<open>json.dump\<close>, not by its text.
\<close>

record world =
  calls :: "api_call list"
  log :: "(level \<times> string) list"
  opened :: "string list"
  written :: "(string \<times> pyval) list"

text \<open>
  What lies outside the script is a parameter of the model. Each operation that the
  script performs outside a \<^verbatim>\<open>try\<close> block may raise, and an exception is named by
  its class:
  \<^item> \<open>new_client h region\<close> is \<^verbatim>\<open>boto3.client('s3', region_name=region)\<close> after the calls
    \<open>h\<close>: \<open>None\<close> when it returns the client, \<open>Some x\<close> when it raises \<open>x\<close>
    (\<^verbatim>\<open>InvalidRegionError\<close> on a malformed region name, for one);
  \<^item> \<open>respond\<close> is the provider;
  \<^item> \<open>open_file path\<close> is \<^verbatim>\<open>open(path, 'w')\<close>: \<open>None\<close> when the file is opened,
    \<open>Some x\<close> when the opening raises \<open>x\<close> and leaves the file system as it was;
  \<^item> \<open>dump_file path doc\<close> is \<^verbatim>\<open>json.dump\<close> into the opened file and its closing:
    \<open>None\<close> when the document is written completely, \<open>Some x\<close> when \<open>x\<close> is
    raised on the way.
\<close>

record env =
  new_client :: "api_call list \<Rightarrow> string \<Rightarrow> string option"
  respond :: provider
  open_file :: "string \<Rightarrow> string option"
  dump_file :: "string \<Rightarrow> pyval \<Rightarrow> string option"

section \<open>Constants of the script\<close>

definition PROJECT_NAME :: string where
  "PROJECT_NAME = ''patient-outcome''"

definition AWS_REGION :: string where
  "AWS_REGION = ''us-west-2''"

definition ENVIRONMENT :: string where
  "ENVIRONMENT = ''dev''"

definition BRONZE_BUCKET :: string where
  "BRONZE_BUCKET = PROJECT_NAME @ ''-'' @ ENVIRONMENT @ ''-bronze-data''"

definition SILVER_BUCKET :: string where
  "SILVER_BUCKET = PROJECT_NAME @ ''-'' @ ENVIRONMENT @ ''-silver-data''"

definition GOLD_BUCKET :: string where
  "GOLD_BUCKET = PROJECT_NAME @ ''-'' @ ENVIRONMENT @ ''-gold-data''"

section \<open>The lifecycle selector\<close>

definition get_lifecycle_config :: "string \<Rightarrow> pyval" where
  "get_lifecycle_config tier =
    (if tier = ''bronze'' then
       PDict [(''Rules'', PList [
         PDict [(''ID'', PStr ''Move to IA and Glacier''),
                (''Status'', PStr ''Enabled''),
                (''Filter'', PDict [(''Prefix'', PStr '''')]),
                (''Transitions'', PList [
                   PDict [(''Days'', PInt 60), (''StorageClass'', PStr ''STANDARD_IA'')],
                   PDict [(''Days'', PInt 180), (''StorageClass'', PStr ''GLACIER'')]])]])]
     else if tier = ''silver'' then
       PDict [(''Rules'', PList [
         PDict [(''ID'', PStr ''Move to IA and Glacier''),
                (''Status'', PStr ''Enabled''),
                (''Filter'', PDict [(''Prefix'', PStr '''')]),
                (''Transitions'', PList [
                   PDict [(''Days'', PInt 30), (''StorageClass'', PStr ''STANDARD_IA'')],
                   PDict [(''Days'', PInt 90), (''StorageClass'', PStr ''GLACIER'')]])]])]
     else
       PDict [(''Rules'', PList [
         PDict [(''ID'', PStr ''Move to IA''),
                (''Status'', PStr ''Enabled''),
                (''Filter'', PDict [(''Prefix'', PStr '''')]),
                (''Transitions'', PList [
                   PDict [(''Days'', PInt 30), (''StorageClass'', PStr ''STANDARD_IA'')]])]])])"

text \<open>
  Reading a lifecycle configuration the way the provider does: the value under a key of
  a dictionary, and the transitions of all its rules, in order, each as the pair of its
  \<^verbatim>\<open>Days\<close> and its \<^verbatim>\<open>StorageClass\<close>. A value of another shape has no reading.
\<close>

fun dict_get :: "pyval \<Rightarrow> string \<Rightarrow> pyval option" where
  "dict_get (PDict kvs) k = map_of kvs k"
| "dict_get _ k = None"

definition transition_of :: "pyval \<Rightarrow> (int \<times> string) option" where
  "transition_of t =
    (case (dict_get t ''Days'', dict_get t ''StorageClass'') of
       (Some (PInt d), Some (PStr c)) \<Rightarrow> Some (d, c)
     | _ \<Rightarrow> None)"

fun sequence_opt :: "'a option list \<Rightarrow> 'a list option" where
  "sequence_opt [] = Some []"
| "sequence_opt (None # xs) = None"
| "sequence_opt (Some x # xs) = map_option ((#) x) (sequence_opt xs)"

definition rule_transitions :: "pyval \<Rightarrow> (int \<times> string) list option" where
  "rule_transitions r =
    (case dict_get r ''Transitions'' of
       Some (PList ts) \<Rightarrow> sequence_opt (map transition_of ts)
     | _ \<Rightarrow> None)"

definition transitions :: "pyval \<Rightarrow> (int \<times> string) list option" where
  "transitions cfg =
    (case dict_get cfg ''Rules'' of
       Some (PList rs) \<Rightarrow> map_option concat (sequence_opt (map rule_transitions rs))
     | _ \<Rightarrow> None)"

section \<open>Logging and calls of the client\<close>

definition logger_info :: "string \<Rightarrow> world \<Rightarrow> world" where
  "logger_info msg w = w\<lparr>log := log w @ [(INFO, msg)]\<rparr>"

definition logger_error :: "string \<Rightarrow> world \<Rightarrow> world" where
  "logger_error msg w = w\<lparr>log := log w @ [(ERROR, msg)]\<rparr>"

text \<open>
  A call of the client is recorded, and the provider answers it from the calls made
  before it.
\<close>

definition call_api :: "provider \<Rightarrow> api_call \<Rightarrow> world \<Rightarrow> response \<times> world" where
  "call_api P c w = (P (calls w) c, w\<lparr>calls := calls w @ [c]\<rparr>)"

section \<open>The six requests of \<^verbatim>\<open>create_bucket\<close>\<close>

text \<open>
  The request of lines 47 to 53: the bucket alone in region \<^verbatim>\<open>us-east-1\<close>, and with
  the location constraint elsewhere.
\<close>

definition create_bucket_request :: "string \<Rightarrow> string \<Rightarrow> api_call" where
  "create_bucket_request bucket_name region =
    (if region = ''us-east-1'' then
       ApiCall ''create_bucket'' [(''Bucket'', PStr bucket_name)]
     else
       ApiCall ''create_bucket''
         [(''Bucket'', PStr bucket_name),
          (''CreateBucketConfiguration'', PDict [(''LocationConstraint'', PStr region)])])"

definition put_bucket_versioning_request :: "string \<Rightarrow> api_call" where
  "put_bucket_versioning_request bucket_name =
    ApiCall ''put_bucket_versioning''
      [(''Bucket'', PStr bucket_name),
       (''VersioningConfiguration'', PDict [(''Status'', PStr ''Enabled'')])]"

definition put_bucket_encryption_request :: "string \<Rightarrow> api_call" where
  "put_bucket_encryption_request bucket_name =
    ApiCall ''put_bucket_encryption''
      [(''Bucket'', PStr bucket_name),
       (''ServerSideEncryptionConfiguration'',
          PDict [(''Rules'', PList [
            PDict [(''ApplyServerSideEncryptionByDefault'',
                      PDict [(''SSEAlgorithm'', PStr ''AES256'')]),
                   (''BucketKeyEnabled'', PBool True)]])])]"

definition put_public_access_block_request :: "string \<Rightarrow> api_call" where
  "put_public_access_block_request bucket_name =
    ApiCall ''put_public_access_block''
      [(''Bucket'', PStr bucket_name),
       (''PublicAccessBlockConfiguration'',
          PDict [(''BlockPublicAcls'', PBool True),
                 (''IgnorePublicAcls'', PBool True),
                 (''BlockPublicPolicy'', PBool True),
                 (''RestrictPublicBuckets'', PBool True)])]"

definition put_bucket_lifecycle_configuration_request :: "string \<Rightarrow> string \<Rightarrow> api_call" where
  "put_bucket_lifecycle_configuration_request bucket_name tier =
    ApiCall ''put_bucket_lifecycle_configuration''
      [(''Bucket'', PStr bucket_name),
       (''LifecycleConfiguration'', get_lifecycle_config tier)]"

definition put_bucket_tagging_request :: "string \<Rightarrow> string \<Rightarrow> api_call" where
  "put_bucket_tagging_request bucket_name tier =
    ApiCall ''put_bucket_tagging''
      [(''Bucket'', PStr bucket_name),
       (''Tagging'',
          PDict [(''TagSet'', PList [
            PDict [(''Key'', PStr ''Project''), (''Value'', PStr ''PatientOutcomePrediction'')],
            PDict [(''Key'', PStr ''Environment''), (''Value'', PStr ENVIRONMENT)],
            PDict [(''Key'', PStr ''DataTier''), (''Value'', PStr tier)],
            PDict [(''Key'', PStr ''Contains-PHI''), (''Value'', PStr ''True'')],
            PDict [(''Key'', PStr ''Compliance''), (''Value'', PStr ''HIPAA'')]])])]"

section \<open>\<^verbatim>\<open>create_bucket\<close>\<close>

text \<open>
  The result of \<^verbatim>\<open>create_bucket\<close> is \<open>Inr\<close> of the flag it returns, or \<open>Inl\<close> of the
  exception that leaves it.

  Each of the five configuration steps is a \<^verbatim>\<open>try\<close> block of one shape: the call,
  then an info record; the handler of \<^verbatim>\<open>ClientError\<close> emits an error record that ends
  with the text of the error and returns \<^verbatim>\<open>False\<close>. \<open>rest\<close> is the code after the
  block, reached only when the call returned.
\<close>

definition try_call ::
  "provider \<Rightarrow> api_call \<Rightarrow> string \<Rightarrow> string \<Rightarrow>
   (world \<Rightarrow> (string + bool) \<times> world) \<Rightarrow> world \<Rightarrow> (string + bool) \<times> world" where
  "try_call P c done_msg error_msg rest w =
    (case call_api P c w of
       (Success, w') \<Rightarrow> rest (logger_info done_msg w')
     | (ClientError e, w') \<Rightarrow> (Inr False, logger_error (error_msg @ Text e) w')
     | (Raises x, w') \<Rightarrow> (Inl x, w'))"

text \<open>Lines 63 to 156: versioning, encryption, public access block, lifecycle, tags.\<close>

definition configure_bucket ::
  "provider \<Rightarrow> string \<Rightarrow> string \<Rightarrow> world \<Rightarrow> (string + bool) \<times> world" where
  "configure_bucket P bucket_name tier =
    try_call P (put_bucket_versioning_request bucket_name)
      (''Enabled versioning on '' @ bucket_name)
      (''Error enabling versioning on '' @ bucket_name @ '': '')
   (try_call P (put_bucket_encryption_request bucket_name)
      (''Enabled encryption on '' @ bucket_name)
      (''Error enabling encryption on '' @ bucket_name @ '': '')
   (try_call P (put_public_access_block_request bucket_name)
      (''Blocked public access on '' @ bucket_name)
      (''Error blocking public access on '' @ bucket_name @ '': '')
   (try_call P (put_bucket_lifecycle_configuration_request bucket_name tier)
      (''Set lifecycle policy for '' @ tier @ '' tier on '' @ bucket_name)
      (''Error setting lifecycle policy on '' @ bucket_name @ '': '')
   (try_call P (put_bucket_tagging_request bucket_name tier)
      (''Added compliance tags to '' @ bucket_name)
      (''Error adding tags to '' @ bucket_name @ '': '')
   (\<lambda>w. (Inr True, w))))))"

text \<open>
  Lines 43 to 61, then the configuration: the body of \<^verbatim>\<open>create_bucket\<close> once it has
  the client, whose calls the provider \<open>P\<close> answers. The handler of the creation
  tolerates the code \<^verbatim>\<open>BucketAlreadyOwnedByYou\<close> and returns \<^verbatim>\<open>False\<close> on every other
  code.
\<close>

definition create_bucket_with_client ::
  "provider \<Rightarrow> string \<Rightarrow> string \<Rightarrow> string \<Rightarrow> world \<Rightarrow> (string + bool) \<times> world" where
  "create_bucket_with_client P bucket_name region tier w =
    (case call_api P (create_bucket_request bucket_name region)
            (logger_info (''Creating '' @ tier @ '' tier bucket: '' @ bucket_name) w) of
       (Success, w') \<Rightarrow>
         configure_bucket P bucket_name tier
           (logger_info (''Bucket '' @ bucket_name @ '' created successfully'') w')
     | (ClientError e, w') \<Rightarrow>
         if Code e = ''BucketAlreadyOwnedByYou'' then
           configure_bucket P bucket_name tier
             (logger_info (''Bucket '' @ bucket_name @ '' already exists and is owned by you'') w')
         else
           (Inr False, logger_error (''Error creating bucket '' @ bucket_name @ '': '' @ Text e) w')
     | (Raises x, w') \<Rightarrow> (Inl x, w'))"

text \<open>
  \<^verbatim>\<open>create_bucket\<close> from its first statement. Line 41 builds the client outside any
  \<^verbatim>\<open>try\<close> block, before the first log record and the first request: an exception
  raised there leaves \<^verbatim>\<open>create_bucket\<close> with nothing logged and nothing requested.
\<close>

definition create_bucket ::
  "env \<Rightarrow> string \<Rightarrow> string \<Rightarrow> string \<Rightarrow> world \<Rightarrow> (string + bool) \<times> world" where
  "create_bucket E bucket_name region tier w =
    (case new_client E (calls w) region of
       Some x \<Rightarrow> (Inl x, w)
     | None \<Rightarrow> create_bucket_with_client (respond E) bucket_name region tier w)"

section \<open>\<^verbatim>\<open>create_data_lake\<close>\<close>

text \<open>
  The loop of lines 239 to 241 over the items of the dictionary \<^verbatim>\<open>buckets\<close>, in
  insertion order, with the flag \<^verbatim>\<open>success\<close>. An exception that leaves
  \<^verbatim>\<open>create_bucket\<close> leaves the loop.
\<close>

fun create_all :: "env \<Rightarrow> (string \<times> string) list \<Rightarrow> bool \<Rightarrow> world \<Rightarrow> (string + bool) \<times> world" where
  "create_all E [] success w = (Inr success, w)"
| "create_all E ((tier, bucket_name) # items) success w =
    (case create_bucket E bucket_name AWS_REGION tier w of
       (Inl x, w') \<Rightarrow> (Inl x, w')
     | (Inr ok, w') \<Rightarrow> create_all E items (if \<not> ok then False else success) w')"

definition buckets :: "(string \<times> string) list" where
  "buckets = [(''bronze'', BRONZE_BUCKET), (''silver'', SILVER_BUCKET), (''gold'', GOLD_BUCKET)]"

definition config :: pyval where
  "config =
    PDict [(''project'', PStr PROJECT_NAME),
           (''environment'', PStr ENVIRONMENT),
           (''region'', PStr AWS_REGION),
           (''buckets'', PDict [(''bronze'', PStr BRONZE_BUCKET),
                                (''silver'', PStr SILVER_BUCKET),
                                (''gold'', PStr GOLD_BUCKET)])]"

text \<open>
  Lines 261 and 262, \<^verbatim>\<open>with open('data_lake_config.json', 'w') as f: json.dump(...)\<close>,
  outside any \<^verbatim>\<open>try\<close> block: an exception raised by the opening or by the dumping
  leaves \<^verbatim>\<open>create_data_lake\<close>.
\<close>

definition write_config :: "env \<Rightarrow> world \<Rightarrow> (string + unit) \<times> world" where
  "write_config E w =
    (case open_file E ''data_lake_config.json'' of
       Some x \<Rightarrow> (Inl x, w)
     | None \<Rightarrow>
        (let w' = w\<lparr>opened := opened w @ [''data_lake_config.json'']\<rparr> in
         case dump_file E ''data_lake_config.json'' config of
           Some x \<Rightarrow> (Inl x, w')
         | None \<Rightarrow>
            (Inr (), w'\<lparr>written := written w' @ [(''data_lake_config.json'', config)]\<rparr>)))"

text \<open>
  The two log records that start with an emoji have it as its UTF-8 bytes (U+2705 and
  U+274C).
\<close>

definition create_data_lake :: "env \<Rightarrow> world \<Rightarrow> (string + bool) \<times> world" where
  "create_data_lake E w =
    (case create_all E buckets True w of
       (Inl x, w') \<Rightarrow> (Inl x, w')
     | (Inr success, w') \<Rightarrow>
         if success then
           (let w1 = logger_info ([CHR 0xE2, CHR 0x9C, CHR 0x85]
                        @ '' Data lake S3 buckets created successfully!'') w';
                w2 = logger_info (''Bronze tier: '' @ BRONZE_BUCKET @ '' (raw data storage)'') w1;
                w3 = logger_info (''Silver tier: '' @ SILVER_BUCKET
                        @ '' (processed/transformed data)'') w2;
                w4 = logger_info (''Gold tier: '' @ GOLD_BUCKET @ '' (analytics-ready data)'') w3
            in case write_config E w4 of
                 (Inl x, w5) \<Rightarrow> (Inl x, w5)
               | (Inr u, w5) \<Rightarrow>
                   (Inr True, logger_info ''Configuration saved to data_lake_config.json'' w5))
         else
           (Inr False, logger_error ([CHR 0xE2, CHR 0x9D, CHR 0x8C]
                          @ '' Failed to create some data lake buckets'') w'))"

section \<open>Vocabulary of the statements\<close>

text \<open>
  The six requests of one run of \<^verbatim>\<open>create_bucket\<close>, in the order of the source text.
\<close>

definition requests :: "string \<Rightarrow> string \<Rightarrow> string \<Rightarrow> api_call list" where
  "requests bucket_name region tier =
    [create_bucket_request bucket_name region,
     put_bucket_versioning_request bucket_name,
     put_bucket_encryption_request bucket_name,
     put_public_access_block_request bucket_name,
     put_bucket_lifecycle_configuration_request bucket_name tier,
     put_bucket_tagging_request bucket_name tier]"

text \<open>
  The answer of the provider to request number \<open>i\<close> of \<open>cs\<close> (from 0), when the
  requests before it have been made one after the other from world \<open>w\<close>.
\<close>

definition answer :: "provider \<Rightarrow> world \<Rightarrow> api_call list \<Rightarrow> nat \<Rightarrow> response" where
  "answer P w cs i = P (calls w @ take i cs) (cs ! i)"

text \<open>
  The answers to the creation request after which the configuration goes on: the call
  returned, or the provider reported that the caller owns the bucket already.
\<close>

fun tolerated :: "response \<Rightarrow> bool" where
  "tolerated Success = True"
| "tolerated (ClientError e) = (Code e = ''BucketAlreadyOwnedByYou'')"
| "tolerated (Raises x) = False"

text \<open>
  What the creation call of a run of \<^verbatim>\<open>create_bucket\<close> from world \<open>w\<close> reports: the
  answer of the provider, or nothing when the client cannot be built and the call is
  never made. The creation is tolerated when the call is made and its answer is.
\<close>

definition creation_answer :: "env \<Rightarrow> world \<Rightarrow> string \<Rightarrow> string \<Rightarrow> response option" where
  "creation_answer E w bucket_name region =
    (case new_client E (calls w) region of
       Some x \<Rightarrow> None
     | None \<Rightarrow> Some (respond E (calls w) (create_bucket_request bucket_name region)))"

definition creation_tolerated :: "env \<Rightarrow> world \<Rightarrow> string \<Rightarrow> string \<Rightarrow> bool" where
  "creation_tolerated E w bucket_name region =
    (case creation_answer E w bucket_name region of
       None \<Rightarrow> False
     | Some a \<Rightarrow> tolerated a)"

text \<open>The bucket a request addresses, and the calls made between two worlds.\<close>

definition bucket_of :: "api_call \<Rightarrow> pyval option" where
  "bucket_of c = map_of (kwargs c) ''Bucket''"

definition new_calls :: "world \<Rightarrow> world \<Rightarrow> api_call list" where
  "new_calls w w' = drop (length (calls w)) (calls w')"

text \<open>
  The three runs of \<^verbatim>\<open>create_bucket\<close> that the loop of \<^verbatim>\<open>create_data_lake\<close> makes
  from world \<open>w\<close>, each from the world the one before it left.
\<close>

definition bronze_run :: "env \<Rightarrow> world \<Rightarrow> (string + bool) \<times> world" where
  "bronze_run E w = create_bucket E BRONZE_BUCKET AWS_REGION ''bronze'' w"

definition silver_run :: "env \<Rightarrow> world \<Rightarrow> (string + bool) \<times> world" where
  "silver_run E w = create_bucket E SILVER_BUCKET AWS_REGION ''silver'' (snd (bronze_run E w))"

definition gold_run :: "env \<Rightarrow> world \<Rightarrow> (string + bool) \<times> world" where
  "gold_run E w = create_bucket E GOLD_BUCKET AWS_REGION ''gold'' (snd (silver_run E w))"

text \<open>Worlds, providers and environments of the examples.\<close>

definition start :: world where
  "start = \<lparr>calls = [], log = [], opened = [], written = []\<rparr>"

definition accept_all :: provider where
  "accept_all h c = Success"



definition deny_versioning :: provider where
  "deny_versioning h c =
    (if operation c = ''put_bucket_versioning'' then
       ClientError (ClientErrorExn ''AccessDenied'' ''access denied'')
     else Success)"



text \<open>
  An environment in which every client is built and the file is written, one that
  rejects the region name \<^verbatim>\<open>us_west_2\<close>, one in which no file can be opened, and one
  in which no client can be built.
\<close>

definition reliable :: "provider \<Rightarrow> env" where
  "reliable P =
    \<lparr>new_client = (\<lambda>h region. None), respond = P,
     open_file = (\<lambda>path. None), dump_file = (\<lambda>path doc. None)\<rparr>"

definition malformed_region :: env where
  "malformed_region =
    (reliable accept_all)
      \<lparr>new_client :=
         (\<lambda>h region. if region = ''us_west_2'' then Some ''InvalidRegionError'' else None)\<rparr>"

definition read_only :: env where
  "read_only = (reliable accept_all)\<lparr>open_file := (\<lambda>path. Some ''PermissionError'')\<rparr>"


section \<open>The lifecycle selector: results\<close>

text \<open>
  Claim C1. For each of the three tiers the selector returns the documented transitions
  in the documented order: bronze gives 60 days to STANDARD_IA, then 180 days to
  GLACIER; silver gives 30 days to STANDARD_IA, then 90 days to GLACIER; gold gives
  30 days to STANDARD_IA alone.
\<close>

theorem get_lifecycle_config_documented:
  "transitions (get_lifecycle_config ''bronze'') = Some [(60, ''STANDARD_IA''), (180, ''GLACIER'')]
   \<and> transitions (get_lifecycle_config ''silver'') = Some [(30, ''STANDARD_IA''), (90, ''GLACIER'')]
   \<and> transitions (get_lifecycle_config ''gold'') = Some [(30, ''STANDARD_IA'')]"
  by (simp add: get_lifecycle_config_def transitions_def rule_transitions_def transition_of_def)

text \<open>
  Claim C8. The selector has no error branch: it is defined on every string, and every
  tier name other than bronze and silver, the empty and the misspelled ones included,
  gets the configuration of the gold tier.
\<close>

theorem get_lifecycle_config_default_gold:
  "tier \<noteq> ''bronze'' \<Longrightarrow> tier \<noteq> ''silver'' \<Longrightarrow>
     get_lifecycle_config tier = get_lifecycle_config ''gold''
     \<and> transitions (get_lifecycle_config tier) = Some [(30, ''STANDARD_IA'')]"
  by (simp add: get_lifecycle_config_def transitions_def rule_transitions_def transition_of_def)

theorem get_lifecycle_config_default_gold_witness:
  "''Bronze'' \<noteq> ''bronze'' \<and> ''Bronze'' \<noteq> ''silver''
   \<and> get_lifecycle_config ''Bronze'' = get_lifecycle_config ''gold''
   \<and> transitions (get_lifecycle_config ''Bronze'') = Some [(30, ''STANDARD_IA'')]
   \<and> '''' \<noteq> ''bronze'' \<and> '''' \<noteq> ''silver''
   \<and> get_lifecycle_config '''' = get_lifecycle_config ''gold''"
proof -
  have a: "''Bronze'' \<noteq> ''bronze''" and b: "''Bronze'' \<noteq> ''silver''"
    by simp_all
  have c: "'''' \<noteq> ''bronze''" and d: "'''' \<noteq> ''silver''"
    by simp_all
  from get_lifecycle_config_default_gold [OF a b]
       get_lifecycle_config_default_gold [OF c d] a b c d
  show ?thesis by blast
qed

section \<open>Auxiliary facts\<close>

lemma calls_logger [simp]:
  "calls (logger_info m w) = calls w" "calls (logger_error m w) = calls w"
  by (simp_all add: logger_info_def logger_error_def)

lemma written_logger [simp]:
  "written (logger_info m w) = written w" "written (logger_error m w) = written w"
  by (simp_all add: logger_info_def logger_error_def)

lemma opened_logger [simp]:
  "opened (logger_info m w) = opened w" "opened (logger_error m w) = opened w"
  by (simp_all add: logger_info_def logger_error_def)

lemma log_logger [simp]:
  "log (logger_info m w) = log w @ [(INFO, m)]" "log (logger_error m w) = log w @ [(ERROR, m)]"
  by (simp_all add: logger_info_def logger_error_def)

lemma try_call_calls:
  assumes "\<And>w'. \<exists>t. calls (snd (rest w')) = calls w' @ t \<and> prefix t cs"
  shows "\<exists>t. calls (snd (try_call P c m1 m2 rest w)) = calls w @ t \<and> prefix [c] t \<and> prefix t (c # cs)"
proof (cases "P (calls w) c")
  case Success
  obtain t where "calls (snd (rest (logger_info m1 (w\<lparr>calls := calls w @ [c]\<rparr>)))) = (calls w @ [c]) @ t" "prefix t cs"
    using assms[of "logger_info m1 (w\<lparr>calls := calls w @ [c]\<rparr>)"] by auto
  then show ?thesis using Success
    by (auto simp: try_call_def call_api_def intro!: exI[of _ "c # t"])
qed (auto simp: try_call_def call_api_def)

lemma try_call_written:
  assumes "\<And>w'. written (snd (rest w')) = written w'"
  shows "written (snd (try_call P c m1 m2 rest w)) = written w"
  using assms by (cases "P (calls w) c") (simp_all add: try_call_def call_api_def)




lemma configure_bucket_written: "written (snd (configure_bucket P b t w)) = written w"
  unfolding configure_bucket_def
  by (intro try_call_written) simp

lemma with_client_written: "written (snd (create_bucket_with_client P b r t w)) = written w"
  by (simp add: create_bucket_with_client_def call_api_def configure_bucket_written split: response.splits)

lemma with_client_prefix:
  "\<exists>n. 1 \<le> n \<and> n \<le> 6 \<and> calls (snd (create_bucket_with_client P b r t w)) = calls w @ take n (requests b r t)"
proof -
  let ?c = "create_bucket_request b r"
  let ?cs = "tl (requests b r t)"
  let ?k = "\<lambda>m1. configure_bucket P b t (logger_info m1 (w\<lparr>calls := calls w @ [?c]\<rparr>))"
  have conf: "\<exists>u. calls (snd (configure_bucket P b t v)) = calls v @ u \<and> prefix u ?cs" for v
    unfolding configure_bucket_def requests_def list.sel
    apply (rule exE[OF try_call_calls]) prefer 2 apply blast
    apply (rule exE[OF try_call_calls]) prefer 2 apply blast
    apply (rule exE[OF try_call_calls]) prefer 2 apply blast
    apply (rule exE[OF try_call_calls]) prefer 2 apply blast
    apply (rule exE[OF try_call_calls]) prefer 2 apply blast
    apply simp
    done
  have "\<exists>u. calls (snd (create_bucket_with_client P b r t w)) = calls w @ ?c # u \<and> prefix u ?cs"
  proof (cases "P (calls w) ?c")
    case Success
    then show ?thesis
      using conf[of "logger_info (''Bucket '' @ b @ '' created successfully'') (logger_info (''Creating '' @ t @ '' tier bucket: '' @ b) w\<lparr>calls := calls w @ [?c]\<rparr>)"]
      by (auto simp: create_bucket_with_client_def call_api_def)
  next
    case (ClientError e)
    then show ?thesis
      using conf[of "logger_info (''Bucket '' @ b @ '' already exists and is owned by you'') (logger_info (''Creating '' @ t @ '' tier bucket: '' @ b) w\<lparr>calls := calls w @ [?c]\<rparr>)"]
      by (auto simp: create_bucket_with_client_def call_api_def)
  next
    case (Raises x)
    then show ?thesis by (auto simp: create_bucket_with_client_def call_api_def)
  qed
  then obtain u where u: "calls (snd (create_bucket_with_client P b r t w)) = calls w @ ?c # u" "prefix u ?cs"
    by blast
  from u(2) obtain zs where zs: "?cs = u @ zs" by (auto simp: prefix_def)
  have req: "requests b r t = ?c # ?cs" by (simp add: requests_def)
  have len: "length (requests b r t) = 6" by (simp add: requests_def)
  have "take (Suc (length u)) (requests b r t) = ?c # u"
    by (subst req) (simp add: zs)
  moreover have "Suc (length u) \<le> 6" using len zs req
    by (metis Suc_le_mono le_add1 length_Cons length_append numeral_nat(4) numeral_Bit0 )
  ultimately show ?thesis using u(1)
    by (intro exI[of _ "Suc (length u)"]) simp
qed

lemma ball_1_5: "(\<forall>i\<in>{1..5::nat}. Q i) = (Q 1 \<and> Q 2 \<and> Q 3 \<and> Q 4 \<and> Q 5)"
proof -
  have "{1..5::nat} = {1, 2, 3, 4, 5}" by auto
  then show ?thesis by simp
qed

lemma answer_requests:
  "answer P w (requests b r t) 0 = P (calls w) (create_bucket_request b r)"
  "answer P w (requests b r t) 1 = P (calls w @ [create_bucket_request b r]) (put_bucket_versioning_request b)"
  "answer P w (requests b r t) 2 = P (calls w @ [create_bucket_request b r, put_bucket_versioning_request b]) (put_bucket_encryption_request b)"
  "answer P w (requests b r t) 3 = P (calls w @ [create_bucket_request b r, put_bucket_versioning_request b, put_bucket_encryption_request b]) (put_public_access_block_request b)"
  "answer P w (requests b r t) 4 = P (calls w @ [create_bucket_request b r, put_bucket_versioning_request b, put_bucket_encryption_request b, put_public_access_block_request b]) (put_bucket_lifecycle_configuration_request b t)"
  "answer P w (requests b r t) 5 = P (calls w @ [create_bucket_request b r, put_bucket_versioning_request b, put_bucket_encryption_request b, put_public_access_block_request b, put_bucket_lifecycle_configuration_request b t]) (put_bucket_tagging_request b t)"
  by (simp_all add: answer_def requests_def numeral_eq_Suc)

lemma answer_requests_Suc0:
  "answer P w (requests b r t) (Suc 0) = P (calls w @ [create_bucket_request b r]) (put_bucket_versioning_request b)"
  by (simp add: answer_def requests_def)

lemma ivl_1: "{1..<1::nat} = {}" "{1..<2::nat} = {1}" "{1..<3::nat} = {1,2}" "{1..<4::nat} = {1,2,3}" "{1..<5::nat} = {1,2,3,4}"
  by auto

lemmas request_defs = create_bucket_request_def put_bucket_versioning_request_def
      put_bucket_encryption_request_def put_public_access_block_request_def
      put_bucket_lifecycle_configuration_request_def put_bucket_tagging_request_def

lemma operation_requests:
  "map operation (requests b r t) =
     [''create_bucket'', ''put_bucket_versioning'', ''put_bucket_encryption'',
      ''put_public_access_block'', ''put_bucket_lifecycle_configuration'', ''put_bucket_tagging'']"
  by (simp add: requests_def request_defs)

lemma bucket_of_requests:
  "c \<in> set (requests b r t) \<Longrightarrow> bucket_of c = Some (PStr b)"
  by (auto simp: requests_def bucket_of_def request_defs)



lemma take_requests:
  "take (Suc (Suc 0)) (requests b r t) = [create_bucket_request b r, put_bucket_versioning_request b]"
  "take 2 (requests b r t) = [create_bucket_request b r, put_bucket_versioning_request b]"
  "take 3 (requests b r t) = [create_bucket_request b r, put_bucket_versioning_request b,
      put_bucket_encryption_request b]"
  "take 4 (requests b r t) = [create_bucket_request b r, put_bucket_versioning_request b,
      put_bucket_encryption_request b, put_public_access_block_request b]"
  "take 5 (requests b r t) = [create_bucket_request b r, put_bucket_versioning_request b,
      put_bucket_encryption_request b, put_public_access_block_request b,
      put_bucket_lifecycle_configuration_request b t]"
  "take 6 (requests b r t) = [create_bucket_request b r, put_bucket_versioning_request b,
      put_bucket_encryption_request b, put_public_access_block_request b,
      put_bucket_lifecycle_configuration_request b t, put_bucket_tagging_request b t]"
  by (simp_all add: requests_def numeral_eq_Suc)

lemma with_client_first_failure:
  "\<forall>i\<in>{1..5}. \<forall>e.
       tolerated (answer P w (requests b r t) 0)
       \<and> (\<forall>j\<in>{1..<i}. answer P w (requests b r t) j = Success)
       \<and> answer P w (requests b r t) i = ClientError e
       \<longrightarrow> fst (create_bucket_with_client P b r t w) = Inr False
           \<and> calls (snd (create_bucket_with_client P b r t w)) = calls w @ take (Suc i) (requests b r t)
           \<and> (\<exists>m. suffix (Text e) m
                  \<and> log (snd (create_bucket_with_client P b r t w)) \<noteq> []
                  \<and> last (log (snd (create_bucket_with_client P b r t w))) = (ERROR, m))"
  unfolding ball_1_5 ivl_1
  by (intro conjI allI impI; cases "P (calls w) (create_bucket_request b r)";
      auto simp: answer_requests answer_requests_Suc0 take_requests create_bucket_with_client_def
        configure_bucket_def try_call_def call_api_def
      intro!: suffix_ConsI suffix_appendI)

lemma with_client_flag:
  "(fst (create_bucket_with_client P b r t w) = Inr True) =
      (tolerated (answer P w (requests b r t) 0)
       \<and> (\<forall>i\<in>{1..5}. answer P w (requests b r t) i = Success))"
  unfolding ball_1_5 answer_requests
  by (auto simp: create_bucket_with_client_def configure_bucket_def try_call_def call_api_def
      split: response.splits)




lemma deny_versioning_run:
  "create_bucket_with_client deny_versioning b r t w =
    (Inr False,
     w\<lparr>calls := calls w @ [create_bucket_request b r, put_bucket_versioning_request b],
       log := log w @ [(INFO, ''Creating '' @ t @ '' tier bucket: '' @ b),
                       (INFO, ''Bucket '' @ b @ '' created successfully''),
                       (ERROR, ''Error enabling versioning on '' @ b @ '': access denied'')]\<rparr>)"
  by (simp add: create_bucket_with_client_def configure_bucket_def try_call_def call_api_def
      deny_versioning_def request_defs logger_info_def logger_error_def)

lemma accept_all_run:
  "create_bucket_with_client accept_all b r t w =
    (Inr True,
     w\<lparr>calls := calls w @ requests b r t,
       log := log w @ [(INFO, ''Creating '' @ t @ '' tier bucket: '' @ b),
                       (INFO, ''Bucket '' @ b @ '' created successfully''),
                       (INFO, ''Enabled versioning on '' @ b),
                       (INFO, ''Enabled encryption on '' @ b),
                       (INFO, ''Blocked public access on '' @ b),
                       (INFO, ''Set lifecycle policy for '' @ t @ '' tier on '' @ b),
                       (INFO, ''Added compliance tags to '' @ b)]\<rparr>)"
  by (simp add: create_bucket_with_client_def configure_bucket_def try_call_def call_api_def
      accept_all_def requests_def logger_info_def logger_error_def)

lemma bucket_names_differ:
  "SILVER_BUCKET \<noteq> BRONZE_BUCKET" "GOLD_BUCKET \<noteq> BRONZE_BUCKET" "GOLD_BUCKET \<noteq> SILVER_BUCKET"
  by (simp_all add: BRONZE_BUCKET_def SILVER_BUCKET_def GOLD_BUCKET_def)



lemma reliable_sel [simp]:
  "new_client (reliable P) h r = None"
  "respond (reliable P) = P"
  "open_file (reliable P) p = None"
  "dump_file (reliable P) p d = None"
  by (simp_all add: reliable_def)

lemma create_bucket_built:
  "new_client E (calls w) r = None
   \<Longrightarrow> create_bucket E b r t w = create_bucket_with_client (respond E) b r t w"
  by (simp add: create_bucket_def)

lemma create_bucket_unbuilt:
  "new_client E (calls w) r = Some x \<Longrightarrow> create_bucket E b r t w = (Inl x, w)"
  by (simp add: create_bucket_def)

lemma create_bucket_reliable [simp]:
  "create_bucket (reliable P) b r t w = create_bucket_with_client P b r t w"
  by (simp add: create_bucket_def)


lemma creation_tolerated_iff:
  "creation_tolerated E w b r =
     (new_client E (calls w) r = None \<and> tolerated (answer (respond E) w (requests b r t) 0))"
  by (cases "new_client E (calls w) r")
     (simp_all add: creation_tolerated_def creation_answer_def answer_requests)

lemma create_bucket_written: "written (snd (create_bucket E b r t w)) = written w"
  by (cases "new_client E (calls w) r") (simp_all add: create_bucket_def with_client_written)


lemma create_bucket_prefix:
  "\<exists>n. n \<le> 6 \<and> (1 \<le> n) = (new_client E (calls w) r = None)
       \<and> calls (snd (create_bucket E b r t w)) = calls w @ take n (requests b r t)"
proof (cases "new_client E (calls w) r")
  case None
  obtain n where "1 \<le> n" "n \<le> 6"
    "calls (snd (create_bucket_with_client (respond E) b r t w)) = calls w @ take n (requests b r t)"
    using with_client_prefix by blast
  with None show ?thesis by (auto simp: create_bucket_def)
next
  case (Some x)
  then show ?thesis by (intro exI [of _ 0]) (simp add: create_bucket_def)
qed

lemma create_all_buckets:
  "create_all E buckets True w =
    (case bronze_run E w of
       (Inl x, w1) \<Rightarrow> (Inl x, w1)
     | (Inr b1, w1) \<Rightarrow>
        (case silver_run E w of
           (Inl x, w2) \<Rightarrow> (Inl x, w2)
         | (Inr b2, w2) \<Rightarrow>
            (case gold_run E w of
               (Inl x, w3) \<Rightarrow> (Inl x, w3)
             | (Inr b3, w3) \<Rightarrow> (Inr (b1 \<and> b2 \<and> b3), w3))))"
  by (auto simp: buckets_def bronze_run_def silver_run_def gold_run_def split: prod.splits sum.splits)

lemma run_written:
  "written (snd (bronze_run E w)) = written w"
  "written (snd (silver_run E w)) = written w"
  "written (snd (gold_run E w)) = written w"
  by (simp_all add: bronze_run_def silver_run_def gold_run_def create_bucket_written)


lemma write_config_calls [simp]: "calls (snd (write_config E w)) = calls w"
  by (simp add: write_config_def Let_def split: option.splits)

lemma write_config_written:
  "written (snd (write_config E w)) =
     (if fst (write_config E w) = Inr () then written w @ [(''data_lake_config.json'', config)]
      else written w)"
  by (simp add: write_config_def Let_def split: option.splits)

lemma write_config_opened:
  "opened (snd (write_config E w)) =
     (if open_file E ''data_lake_config.json'' = None then opened w @ [''data_lake_config.json'']
      else opened w)"
  by (simp add: write_config_def Let_def split: option.splits)

lemma write_config_result:
  "(fst (write_config E w) = Inr ()) =
     (open_file E ''data_lake_config.json'' = None
      \<and> dump_file E ''data_lake_config.json'' config = None)"
  by (simp add: write_config_def Let_def split: option.splits)

lemma write_config_D:
  assumes "write_config E w = (a, w')"
  shows "calls w' = calls w"
    and "written w' = (if a = Inr () then written w @ [(''data_lake_config.json'', config)]
                       else written w)"
    and "opened w' = (if open_file E ''data_lake_config.json'' = None
                      then opened w @ [''data_lake_config.json''] else opened w)"
    and "(a = Inr ()) = (open_file E ''data_lake_config.json'' = None
                         \<and> dump_file E ''data_lake_config.json'' config = None)"
  using write_config_calls [of E w] write_config_written [of E w] write_config_opened [of E w]
    write_config_result [of E w]
  by (simp_all add: assms)

lemma create_data_lake_calls:
  "calls (snd (create_data_lake E w)) =
    (if isl (fst (bronze_run E w)) then calls (snd (bronze_run E w))
     else if isl (fst (silver_run E w)) then calls (snd (silver_run E w))
     else calls (snd (gold_run E w)))"
  by (auto simp add: create_data_lake_def create_all_buckets Let_def
      split: prod.splits sum.splits dest: write_config_D(1))

lemma all_true_iff:
  "(fst (create_data_lake E w) = Inr True) =
     (fst (bronze_run E w) = Inr True \<and> fst (silver_run E w) = Inr True
      \<and> fst (gold_run E w) = Inr True
      \<and> open_file E ''data_lake_config.json'' = None
      \<and> dump_file E ''data_lake_config.json'' config = None)"
  by (auto simp add: create_data_lake_def create_all_buckets Let_def
      split: prod.splits sum.splits dest: write_config_D(4))


lemma create_data_lake_written:
  "written (snd (create_data_lake E w)) =
    (if fst (create_data_lake E w) = Inr True
     then written w @ [(''data_lake_config.json'', config)] else written w)"
  using run_written [of E w]
  by (auto simp add: create_data_lake_def create_all_buckets Let_def
      split: prod.splits sum.splits dest: write_config_D(2))


lemma run_calls:
  "\<exists>n. n \<le> 6 \<and> calls (snd (bronze_run E w))
      = calls w @ take n (requests BRONZE_BUCKET AWS_REGION ''bronze'')"
  "\<exists>n. n \<le> 6 \<and> calls (snd (silver_run E w))
      = calls (snd (bronze_run E w)) @ take n (requests SILVER_BUCKET AWS_REGION ''silver'')"
  "\<exists>n. n \<le> 6 \<and> calls (snd (gold_run E w))
      = calls (snd (silver_run E w)) @ take n (requests GOLD_BUCKET AWS_REGION ''gold'')"
  unfolding bronze_run_def silver_run_def gold_run_def
  using create_bucket_prefix by blast+

lemma take_requests_bucket:
  "c \<in> set (take n (requests b r t)) \<Longrightarrow> bucket_of c = Some (PStr b)"
  by (blast dest: in_set_takeD bucket_of_requests)

lemma take_requests_operation:
  assumes "c \<in> set (take n (requests b r t))"
  shows "operation c \<in> {''create_bucket'', ''put_bucket_versioning'', ''put_bucket_encryption'',
          ''put_public_access_block'', ''put_bucket_lifecycle_configuration'',
          ''put_bucket_tagging''}"
proof -
  from assms have "c \<in> set (requests b r t)" by (rule in_set_takeD)
  then have "operation c \<in> set (map operation (requests b r t))" by simp
  then show ?thesis unfolding operation_requests by simp
qed

lemma distinct_take_requests:
  "distinct (map (\<lambda>c. (operation c, bucket_of c)) (take n (requests b r t)))"
proof -
  have "distinct (map operation (requests b r t))"
    unfolding operation_requests by simp
  then have "distinct (map operation (take n (requests b r t)))"
    by (simp add: take_map [symmetric])
  then have "distinct (take n (requests b r t))"
    and "inj_on operation (set (take n (requests b r t)))"
    by (simp_all add: distinct_map)
  then show ?thesis
    by (auto simp: distinct_map inj_on_def)
qed

lemma new_calls_append [simp]:
  "calls w' = calls w @ t \<Longrightarrow> new_calls w w' = t"
  by (simp add: new_calls_def)

lemma new_calls_short:
  "length (calls w') \<le> length (calls w) \<Longrightarrow> new_calls w w' = []"
  by (simp add: new_calls_def)


lemma reliable_runs:
  "bronze_run (reliable P) w = create_bucket_with_client P BRONZE_BUCKET AWS_REGION ''bronze'' w"
  "silver_run (reliable P) w = create_bucket_with_client P SILVER_BUCKET AWS_REGION ''silver''
     (snd (create_bucket_with_client P BRONZE_BUCKET AWS_REGION ''bronze'' w))"
  "gold_run (reliable P) w = create_bucket_with_client P GOLD_BUCKET AWS_REGION ''gold''
     (snd (create_bucket_with_client P SILVER_BUCKET AWS_REGION ''silver''
       (snd (create_bucket_with_client P BRONZE_BUCKET AWS_REGION ''bronze'' w))))"
  by (simp_all add: bronze_run_def silver_run_def gold_run_def)




lemma accept_all_data_lake: "fst (create_data_lake (reliable accept_all) w) = Inr True"
  by (simp add: all_true_iff reliable_runs accept_all_run)

lemma accept_all_calls:
  "calls (snd (bronze_run (reliable accept_all) w))
     = calls w @ requests BRONZE_BUCKET AWS_REGION ''bronze''"
  "calls (snd (silver_run (reliable accept_all) w))
     = calls w @ requests BRONZE_BUCKET AWS_REGION ''bronze''
         @ requests SILVER_BUCKET AWS_REGION ''silver''"
  "calls (snd (gold_run (reliable accept_all) w))
     = calls w @ requests BRONZE_BUCKET AWS_REGION ''bronze''
         @ requests SILVER_BUCKET AWS_REGION ''silver''
         @ requests GOLD_BUCKET AWS_REGION ''gold''"
  "calls (snd (create_data_lake (reliable accept_all) w))
     = calls w @ requests BRONZE_BUCKET AWS_REGION ''bronze''
         @ requests SILVER_BUCKET AWS_REGION ''silver''
         @ requests GOLD_BUCKET AWS_REGION ''gold''"
  by (simp_all add: create_data_lake_calls reliable_runs accept_all_run)

lemma read_only_sel [simp]:
  "new_client read_only h r = None"
  "respond read_only = accept_all"
  "open_file read_only p = Some ''PermissionError''"
  by (simp_all add: read_only_def reliable_def)






section \<open>The flag returned by \<^verbatim>\<open>create_bucket\<close>\<close>

text \<open>
  Claim C4. \<^verbatim>\<open>create_bucket\<close> returns \<^verbatim>\<open>True\<close> exactly when the creation is tolerated
  and the provider accepts each of the five configuration requests. When the creation
  is tolerated and the first configuration request that the provider does not accept
  (versioning, encryption, public access block, lifecycle or tags) is answered by a
  \<^verbatim>\<open>ClientError\<close>, the error is caught: \<^verbatim>\<open>create_bucket\<close> returns \<^verbatim>\<open>False\<close> and the last
  log record is an error record that ends with the text of that error. When the client
  cannot be built, no creation is made or tolerated, and the exception leaves
  \<^verbatim>\<open>create_bucket\<close> with nothing logged and nothing requested.
\<close>

theorem create_bucket_flag:
  "((fst (create_bucket E b r t w) = Inr True) =
      (creation_tolerated E w b r
       \<and> (\<forall>i\<in>{1..5}. answer (respond E) w (requests b r t) i = Success)))
   \<and> (\<forall>i\<in>{1..5}. \<forall>e.
         creation_tolerated E w b r
         \<and> (\<forall>j\<in>{1..<i}. answer (respond E) w (requests b r t) j = Success)
         \<and> answer (respond E) w (requests b r t) i = ClientError e
         \<longrightarrow> fst (create_bucket E b r t w) = Inr False
             \<and> (\<exists>m. suffix (Text e) m
                    \<and> log (snd (create_bucket E b r t w)) \<noteq> []
                    \<and> last (log (snd (create_bucket E b r t w))) = (ERROR, m)))
   \<and> (\<forall>x. new_client E (calls w) r = Some x
         \<longrightarrow> \<not> creation_tolerated E w b r \<and> create_bucket E b r t w = (Inl x, w))"
proof (intro conjI)
  show "(fst (create_bucket E b r t w) = Inr True) =
      (creation_tolerated E w b r
       \<and> (\<forall>i\<in>{1..5}. answer (respond E) w (requests b r t) i = Success))"
  proof (cases "new_client E (calls w) r")
    case None
    then show ?thesis
      by (simp add: create_bucket_built creation_tolerated_iff [of E w b r t] with_client_flag)
  next
    case (Some x)
    then show ?thesis
      by (simp add: create_bucket_unbuilt creation_tolerated_iff [of E w b r t])
  qed
next
  show "\<forall>i\<in>{1..5}. \<forall>e.
         creation_tolerated E w b r
         \<and> (\<forall>j\<in>{1..<i}. answer (respond E) w (requests b r t) j = Success)
         \<and> answer (respond E) w (requests b r t) i = ClientError e
         \<longrightarrow> fst (create_bucket E b r t w) = Inr False
             \<and> (\<exists>m. suffix (Text e) m
                    \<and> log (snd (create_bucket E b r t w)) \<noteq> []
                    \<and> last (log (snd (create_bucket E b r t w))) = (ERROR, m))"
  proof (cases "new_client E (calls w) r")
    case None
    then show ?thesis
      using with_client_first_failure [of "respond E" w b r t]
      by (simp add: create_bucket_built creation_tolerated_iff [of E w b r t])
  next
    case (Some x)
    then show ?thesis
      by (simp add: creation_tolerated_iff [of E w b r t])
  qed
next
  show "\<forall>x. new_client E (calls w) r = Some x
         \<longrightarrow> \<not> creation_tolerated E w b r \<and> create_bucket E b r t w = (Inl x, w)"
    by (simp add: create_bucket_unbuilt creation_tolerated_iff [of E w b r t])
qed

theorem create_bucket_flag_witness:
  "creation_tolerated (reliable accept_all) start ''b'' ''us-west-2''
   \<and> 3 \<in> {1..5::nat}
   \<and> answer accept_all start (requests ''b'' ''us-west-2'' ''gold'') 3 = Success
   \<and> fst (create_bucket (reliable accept_all) ''b'' ''us-west-2'' ''gold'' start) = Inr True
   \<and> (1::nat) \<in> {1..5}
   \<and> creation_tolerated (reliable deny_versioning) start ''b'' ''us-west-2''
   \<and> answer deny_versioning start (requests ''b'' ''us-west-2'' ''gold'') 1
        = ClientError (ClientErrorExn ''AccessDenied'' ''access denied'')
   \<and> fst (create_bucket (reliable deny_versioning) ''b'' ''us-west-2'' ''gold'' start) = Inr False
   \<and> (\<exists>m. suffix ''access denied'' m
          \<and> last (log (snd (create_bucket (reliable deny_versioning) ''b'' ''us-west-2'' ''gold''
                start))) = (ERROR, m))
   \<and> new_client malformed_region (calls start) ''us_west_2'' = Some ''InvalidRegionError''
   \<and> create_bucket malformed_region ''b'' ''us_west_2'' ''gold'' start
        = (Inl ''InvalidRegionError'', start)"
proof -
  let ?rs = "requests ''b'' ''us-west-2'' ''gold''"
  let ?A = "reliable accept_all" and ?D = "reliable deny_versioning"
  have a0: "creation_tolerated ?A start ''b'' ''us-west-2''"
    by (simp add: creation_tolerated_def creation_answer_def accept_all_def)
  have a: "\<forall>i\<in>{1..5}. answer (respond ?A) start ?rs i = Success"
    by (simp add: answer_def accept_all_def)
  have d0: "creation_tolerated ?D start ''b'' ''us-west-2''"
    by (simp add: creation_tolerated_def creation_answer_def deny_versioning_def request_defs)
  have d1: "answer (respond ?D) start ?rs 1
      = ClientError (ClientErrorExn ''AccessDenied'' ''access denied'')"
    by (simp add: answer_requests answer_requests_Suc0 deny_versioning_def request_defs)
  have i3: "3 \<in> {1..5::nat}" and i1: "(1::nat) \<in> {1..5}" by simp_all
  have e: "\<forall>j\<in>{1..<1::nat}. answer (respond ?D) start ?rs j = Success" by simp
  have m: "new_client malformed_region (calls start) ''us_west_2'' = Some ''InvalidRegionError''"
    by (simp add: malformed_region_def reliable_def)
  note T = create_bucket_flag [of ?A "''b''" "''us-west-2''" "''gold''" start]
  note D = create_bucket_flag [of ?D "''b''" "''us-west-2''" "''gold''" start]
  note M = create_bucket_flag [of malformed_region "''b''" "''us_west_2''" "''gold''" start]
  from T a0 a have t: "fst (create_bucket ?A ''b'' ''us-west-2'' ''gold'' start) = Inr True"
    by blast
  from D have "\<forall>i\<in>{1..5}. \<forall>e.
         creation_tolerated ?D start ''b'' ''us-west-2''
         \<and> (\<forall>j\<in>{1..<i}. answer (respond ?D) start ?rs j = Success)
         \<and> answer (respond ?D) start ?rs i = ClientError e
         \<longrightarrow> fst (create_bucket ?D ''b'' ''us-west-2'' ''gold'' start) = Inr False
             \<and> (\<exists>m. suffix (Text e) m
                    \<and> log (snd (create_bucket ?D ''b'' ''us-west-2'' ''gold'' start)) \<noteq> []
                    \<and> last (log (snd (create_bucket ?D ''b'' ''us-west-2'' ''gold'' start)))
                        = (ERROR, m))"
    by blast
  from this [rule_format, OF i1, of "ClientErrorExn ''AccessDenied'' ''access denied''"] d0 e d1
  have f: "fst (create_bucket ?D ''b'' ''us-west-2'' ''gold'' start) = Inr False
      \<and> (\<exists>m. suffix ''access denied'' m
          \<and> last (log (snd (create_bucket ?D ''b'' ''us-west-2'' ''gold'' start))) = (ERROR, m))"
    by auto
  from M m have u: "create_bucket malformed_region ''b'' ''us_west_2'' ''gold'' start
        = (Inl ''InvalidRegionError'', start)"
    by blast
  from a i3 have "answer accept_all start ?rs 3 = Success" by simp
  moreover from d1 have "answer deny_versioning start ?rs 1
      = ClientError (ClientErrorExn ''AccessDenied'' ''access denied'')" by simp
  ultimately show ?thesis using a0 i3 i1 d0 t f m u by blast
qed

section \<open>The creation step\<close>



section \<open>The order of the requests\<close>



section \<open>A failing step\<close>

text \<open>
  Claim C5, as stated, says that each of the five configuration steps is attempted
  whatever the outcome of the others. It fails: when the provider rejects the
  versioning request, \<^verbatim>\<open>create_bucket\<close> returns \<^verbatim>\<open>False\<close> after two requests and the
  encryption request is never made.
\<close>

theorem create_bucket_steps_not_independent:
  "creation_tolerated (reliable deny_versioning) start BRONZE_BUCKET AWS_REGION
   \<and> fst (create_bucket (reliable deny_versioning) BRONZE_BUCKET AWS_REGION ''bronze'' start)
       = Inr False
   \<and> calls (snd (create_bucket (reliable deny_versioning) BRONZE_BUCKET AWS_REGION ''bronze''
        start))
       = [create_bucket_request BRONZE_BUCKET AWS_REGION,
          put_bucket_versioning_request BRONZE_BUCKET]
   \<and> put_bucket_encryption_request BRONZE_BUCKET
       \<notin> set (calls (snd (create_bucket (reliable deny_versioning) BRONZE_BUCKET AWS_REGION
            ''bronze'' start)))"
  by (simp add: deny_versioning_run start_def creation_tolerated_def creation_answer_def
      deny_versioning_def request_defs)

text \<open>
  Claim C5, amended. A failing step is reported and nothing is rolled back, but it ends
  the run: when the creation is tolerated and configuration step \<open>i\<close> is the first
  that the provider answers with a \<^verbatim>\<open>ClientError\<close>, \<^verbatim>\<open>create_bucket\<close> returns \<^verbatim>\<open>False\<close>,
  its last log record is an error record that ends with the text of that error, and the
  requests it has made are the creation and the configuration requests up to step
  \<open>i\<close>, in order, with no request after the failing one. The later steps are not
  attempted. Every request of a run is one of the six operations, so none deletes or
  undoes anything.
\<close>

theorem create_bucket_stops_at_first_failure:
  "(\<forall>i\<in>{1..5}. \<forall>e.
       creation_tolerated E w b r
       \<and> (\<forall>j\<in>{1..<i}. answer (respond E) w (requests b r t) j = Success)
       \<and> answer (respond E) w (requests b r t) i = ClientError e
       \<longrightarrow> fst (create_bucket E b r t w) = Inr False
           \<and> (\<exists>m. suffix (Text e) m
                  \<and> log (snd (create_bucket E b r t w)) \<noteq> []
                  \<and> last (log (snd (create_bucket E b r t w))) = (ERROR, m))
           \<and> calls (snd (create_bucket E b r t w)) = calls w @ take (Suc i) (requests b r t))
   \<and> (\<forall>c \<in> set (new_calls w (snd (create_bucket E b r t w))).
        operation c \<in> {''create_bucket'', ''put_bucket_versioning'', ''put_bucket_encryption'',
          ''put_public_access_block'', ''put_bucket_lifecycle_configuration'',
          ''put_bucket_tagging''})"
proof (intro conjI)
  show "\<forall>i\<in>{1..5}. \<forall>e.
       creation_tolerated E w b r
       \<and> (\<forall>j\<in>{1..<i}. answer (respond E) w (requests b r t) j = Success)
       \<and> answer (respond E) w (requests b r t) i = ClientError e
       \<longrightarrow> fst (create_bucket E b r t w) = Inr False
           \<and> (\<exists>m. suffix (Text e) m
                  \<and> log (snd (create_bucket E b r t w)) \<noteq> []
                  \<and> last (log (snd (create_bucket E b r t w))) = (ERROR, m))
           \<and> calls (snd (create_bucket E b r t w)) = calls w @ take (Suc i) (requests b r t)"
  proof (cases "new_client E (calls w) r")
    case None
    then show ?thesis
      using with_client_first_failure [of "respond E" w b r t]
      by (simp add: create_bucket_built creation_tolerated_iff [of E w b r t])
  next
    case (Some x)
    then show ?thesis
      by (simp add: creation_tolerated_iff [of E w b r t])
  qed
next
  obtain n where n: "calls (snd (create_bucket E b r t w)) = calls w @ take n (requests b r t)"
    using create_bucket_prefix by blast
  show "\<forall>c \<in> set (new_calls w (snd (create_bucket E b r t w))).
        operation c \<in> {''create_bucket'', ''put_bucket_versioning'', ''put_bucket_encryption'',
          ''put_public_access_block'', ''put_bucket_lifecycle_configuration'',
          ''put_bucket_tagging''}"
  proof
    fix c assume "c \<in> set (new_calls w (snd (create_bucket E b r t w)))"
    then have "c \<in> set (take n (requests b r t))"
      by (simp add: new_calls_def n)
    then show "operation c \<in> {''create_bucket'', ''put_bucket_versioning'',
          ''put_bucket_encryption'', ''put_public_access_block'',
          ''put_bucket_lifecycle_configuration'', ''put_bucket_tagging''}"
      by (rule take_requests_operation)
  qed
qed

theorem create_bucket_stops_at_first_failure_witness:
  "(1::nat) \<in> {1..5}
   \<and> creation_tolerated (reliable deny_versioning) start GOLD_BUCKET AWS_REGION
   \<and> answer deny_versioning start (requests GOLD_BUCKET AWS_REGION ''gold'') 1
        = ClientError (ClientErrorExn ''AccessDenied'' ''access denied'')
   \<and> fst (create_bucket (reliable deny_versioning) GOLD_BUCKET AWS_REGION ''gold'' start)
        = Inr False
   \<and> (\<exists>m. suffix ''access denied'' m
          \<and> last (log (snd (create_bucket (reliable deny_versioning) GOLD_BUCKET AWS_REGION
                ''gold'' start))) = (ERROR, m))
   \<and> calls (snd (create_bucket (reliable deny_versioning) GOLD_BUCKET AWS_REGION ''gold'' start))
        = [create_bucket_request GOLD_BUCKET AWS_REGION, put_bucket_versioning_request GOLD_BUCKET]
   \<and> put_bucket_versioning_request GOLD_BUCKET
        \<in> set (new_calls start (snd (create_bucket (reliable deny_versioning) GOLD_BUCKET
              AWS_REGION ''gold'' start)))
   \<and> operation (put_bucket_versioning_request GOLD_BUCKET) \<noteq> ''delete_bucket''"
proof -
  let ?rs = "requests GOLD_BUCKET AWS_REGION ''gold''"
  let ?D = "reliable deny_versioning"
  let ?run = "create_bucket ?D GOLD_BUCKET AWS_REGION ''gold'' start"
  have i1: "(1::nat) \<in> {1..5}" by simp
  have d0: "creation_tolerated ?D start GOLD_BUCKET AWS_REGION"
    by (simp add: creation_tolerated_def creation_answer_def deny_versioning_def request_defs)
  have d1: "answer (respond ?D) start ?rs 1
      = ClientError (ClientErrorExn ''AccessDenied'' ''access denied'')"
    by (simp add: answer_requests answer_requests_Suc0 deny_versioning_def request_defs)
  have e: "\<forall>j\<in>{1..<1::nat}. answer (respond ?D) start ?rs j = Success" by simp
  have s: "calls start = []" by (simp add: start_def)
  note T = create_bucket_stops_at_first_failure [of ?D start GOLD_BUCKET AWS_REGION "''gold''"]
  from T [THEN conjunct1, rule_format, OF i1, of "ClientErrorExn ''AccessDenied'' ''access denied''"]
    d0 e d1
  have f: "fst ?run = Inr False"
    and l: "\<exists>m. suffix ''access denied'' m \<and> last (log (snd ?run)) = (ERROR, m)"
    and c: "calls (snd ?run) = calls start @ take (Suc 1) ?rs"
    by auto
  from c s have c': "calls (snd ?run)
      = [create_bucket_request GOLD_BUCKET AWS_REGION, put_bucket_versioning_request GOLD_BUCKET]"
    by (simp add: take_requests)
  have m: "put_bucket_versioning_request GOLD_BUCKET \<in> set (new_calls start (snd ?run))"
    using c' s by (simp add: new_calls_def)
  from T [THEN conjunct2, rule_format, OF m]
  have o: "operation (put_bucket_versioning_request GOLD_BUCKET) \<noteq> ''delete_bucket''"
    by auto
  from d1 have d1': "answer deny_versioning start ?rs 1
      = ClientError (ClientErrorExn ''AccessDenied'' ''access denied'')" by simp
  from i1 d0 d1' f l c' m o show ?thesis by blast
qed

section \<open>The summary file\<close>

text \<open>
  Claim C3. When \<^verbatim>\<open>create_data_lake\<close> returns \<^verbatim>\<open>True\<close>, it has written one file,
  \<^verbatim>\<open>data_lake_config.json\<close>, whose document has exactly the keys project, environment,
  region and buckets, and whose buckets map exactly bronze, silver and gold to
  patient-outcome-dev-bronze-data, patient-outcome-dev-silver-data and
  patient-outcome-dev-gold-data.
\<close>

theorem create_data_lake_summary:
  assumes "fst (create_data_lake E w) = Inr True"
  shows "written (snd (create_data_lake E w)) =
           written w @
           [(''data_lake_config.json'',
             PDict [(''project'', PStr ''patient-outcome''),
                    (''environment'', PStr ''dev''),
                    (''region'', PStr ''us-west-2''),
                    (''buckets'',
                       PDict [(''bronze'', PStr ''patient-outcome-dev-bronze-data''),
                              (''silver'', PStr ''patient-outcome-dev-silver-data''),
                              (''gold'', PStr ''patient-outcome-dev-gold-data'')])])]"
proof -
  have "config =
      PDict [(''project'', PStr ''patient-outcome''),
             (''environment'', PStr ''dev''),
             (''region'', PStr ''us-west-2''),
             (''buckets'',
                PDict [(''bronze'', PStr ''patient-outcome-dev-bronze-data''),
                       (''silver'', PStr ''patient-outcome-dev-silver-data''),
                       (''gold'', PStr ''patient-outcome-dev-gold-data'')])]"
    by (simp add: config_def PROJECT_NAME_def ENVIRONMENT_def AWS_REGION_def
        BRONZE_BUCKET_def SILVER_BUCKET_def GOLD_BUCKET_def)
  with assms show ?thesis
    by (simp add: create_data_lake_written)
qed

theorem create_data_lake_summary_witness:
  "fst (create_data_lake (reliable accept_all) start) = Inr True
   \<and> written (snd (create_data_lake (reliable accept_all) start)) =
       [(''data_lake_config.json'',
         PDict [(''project'', PStr ''patient-outcome''),
                (''environment'', PStr ''dev''),
                (''region'', PStr ''us-west-2''),
                (''buckets'',
                   PDict [(''bronze'', PStr ''patient-outcome-dev-bronze-data''),
                          (''silver'', PStr ''patient-outcome-dev-silver-data''),
                          (''gold'', PStr ''patient-outcome-dev-gold-data'')])])]"
proof -
  have t: "fst (create_data_lake (reliable accept_all) start) = Inr True"
    by (rule accept_all_data_lake)
  have s: "written start = []" by (simp add: start_def)
  from create_data_lake_summary [OF t] s t show ?thesis by simp
qed

section \<open>When the summary file is written\<close>




section \<open>The loop over the tiers\<close>




section \<open>No deletion and no return to a bucket\<close>

text \<open>
  Claim C9. In every run of \<^verbatim>\<open>create_data_lake\<close>, each call made is one of the six
  operations of \<^verbatim>\<open>create_bucket\<close>, so no call deletes a bucket; no call made after the
  run of \<^verbatim>\<open>create_bucket\<close> for a bucket has ended addresses that bucket; and no
  operation is applied twice to the same bucket.
\<close>

theorem create_data_lake_no_delete_no_revisit:
  "(\<forall>c \<in> set (new_calls w (snd (create_data_lake E w))).
      operation c \<in> {''create_bucket'', ''put_bucket_versioning'', ''put_bucket_encryption'',
        ''put_public_access_block'', ''put_bucket_lifecycle_configuration'',
        ''put_bucket_tagging''})
   \<and> (\<forall>c \<in> set (new_calls (snd (bronze_run E w)) (snd (create_data_lake E w))).
        bucket_of c \<noteq> Some (PStr BRONZE_BUCKET))
   \<and> (\<forall>c \<in> set (new_calls (snd (silver_run E w)) (snd (create_data_lake E w))).
        bucket_of c \<noteq> Some (PStr SILVER_BUCKET))
   \<and> new_calls (snd (gold_run E w)) (snd (create_data_lake E w)) = []
   \<and> distinct (map (\<lambda>c. (operation c, bucket_of c))
        (new_calls w (snd (create_data_lake E w))))"
proof -
  let ?B = "requests BRONZE_BUCKET AWS_REGION ''bronze''"
  let ?S = "requests SILVER_BUCKET AWS_REGION ''silver''"
  let ?G = "requests GOLD_BUCKET AWS_REGION ''gold''"
  let ?ops = "{''create_bucket'', ''put_bucket_versioning'', ''put_bucket_encryption'',
        ''put_public_access_block'', ''put_bucket_lifecycle_configuration'',
        ''put_bucket_tagging''}"
  let ?key = "\<lambda>c. (operation c, bucket_of c)"
  obtain n1 where n1: "calls (snd (bronze_run E w)) = calls w @ take n1 ?B"
    using run_calls(1) by blast
  obtain n2 where n2: "calls (snd (silver_run E w)) = calls (snd (bronze_run E w)) @ take n2 ?S"
    using run_calls(2) by blast
  obtain n3 where n3: "calls (snd (gold_run E w)) = calls (snd (silver_run E w)) @ take n3 ?G"
    using run_calls(3) by blast
  have opsB: "\<forall>c \<in> set (take n1 ?B). operation c \<in> ?ops"
    and opsS: "\<forall>c \<in> set (take n2 ?S). operation c \<in> ?ops"
    and opsG: "\<forall>c \<in> set (take n3 ?G). operation c \<in> ?ops"
    by (intro ballI, erule take_requests_operation)+
  have bB: "\<forall>c \<in> set (take n1 ?B). bucket_of c = Some (PStr BRONZE_BUCKET)"
    and bS: "\<forall>c \<in> set (take n2 ?S). bucket_of c = Some (PStr SILVER_BUCKET)"
    and bG: "\<forall>c \<in> set (take n3 ?G). bucket_of c = Some (PStr GOLD_BUCKET)"
    by (intro ballI, erule take_requests_bucket)+
  have dB: "distinct (map ?key (take n1 ?B))"
    and dS: "distinct (map ?key (take n2 ?S))"
    and dG: "distinct (map ?key (take n3 ?G))"
    by (rule distinct_take_requests)+
  have dBS: "distinct (map ?key (take n1 ?B @ take n2 ?S))"
    using dB dS bB bS bucket_names_differ by auto
  have dBSG: "distinct (map ?key (take n1 ?B @ take n2 ?S @ take n3 ?G))"
    using dB dS dG bB bS bG bucket_names_differ by auto
  consider (bronze) "isl (fst (bronze_run E w))"
    | (silver) "\<not> isl (fst (bronze_run E w))" "isl (fst (silver_run E w))"
    | (gold) "\<not> isl (fst (bronze_run E w))" "\<not> isl (fst (silver_run E w))"
    by blast
  then show ?thesis
  proof cases
    case bronze
    then have c: "calls (snd (create_data_lake E w)) = calls w @ take n1 ?B"
      by (simp add: create_data_lake_calls n1)
    have 1: "new_calls w (snd (create_data_lake E w)) = take n1 ?B"
      using c by (rule new_calls_append)
    have 2: "new_calls (snd (bronze_run E w)) (snd (create_data_lake E w)) = []"
      by (rule new_calls_short) (simp add: c n1)
    have 3: "new_calls (snd (silver_run E w)) (snd (create_data_lake E w)) = []"
      by (rule new_calls_short) (simp add: c n1 n2)
    have 4: "new_calls (snd (gold_run E w)) (snd (create_data_lake E w)) = []"
      by (rule new_calls_short) (simp add: c n1 n2 n3)
    show ?thesis unfolding 1 2 3 4 using opsB dB by simp
  next
    case silver
    then have c: "calls (snd (create_data_lake E w)) = calls w @ (take n1 ?B @ take n2 ?S)"
      by (simp add: create_data_lake_calls n1 n2)
    have 1: "new_calls w (snd (create_data_lake E w)) = take n1 ?B @ take n2 ?S"
      using c by (rule new_calls_append)
    have 2: "new_calls (snd (bronze_run E w)) (snd (create_data_lake E w)) = take n2 ?S"
      by (rule new_calls_append) (simp add: c n1)
    have 3: "new_calls (snd (silver_run E w)) (snd (create_data_lake E w)) = []"
      by (rule new_calls_short) (simp add: c n1 n2)
    have 4: "new_calls (snd (gold_run E w)) (snd (create_data_lake E w)) = []"
      by (rule new_calls_short) (simp add: c n1 n2 n3)
    show ?thesis unfolding 1 2 3 4 using opsB opsS bS dBS bucket_names_differ by auto
  next
    case gold
    then have c: "calls (snd (create_data_lake E w))
        = calls w @ (take n1 ?B @ take n2 ?S @ take n3 ?G)"
      by (simp add: create_data_lake_calls n1 n2 n3)
    have 1: "new_calls w (snd (create_data_lake E w)) = take n1 ?B @ take n2 ?S @ take n3 ?G"
      using c by (rule new_calls_append)
    have 2: "new_calls (snd (bronze_run E w)) (snd (create_data_lake E w))
        = take n2 ?S @ take n3 ?G"
      by (rule new_calls_append) (simp add: c n1)
    have 3: "new_calls (snd (silver_run E w)) (snd (create_data_lake E w)) = take n3 ?G"
      by (rule new_calls_append) (simp add: c n1 n2)
    have 4: "new_calls (snd (gold_run E w)) (snd (create_data_lake E w)) = []"
      by (rule new_calls_short) (simp add: c n1 n2 n3)
    show ?thesis unfolding 1 2 3 4
      using opsB opsS opsG bS bG dBSG bucket_names_differ by auto
  qed
qed

theorem create_data_lake_no_delete_no_revisit_witness:
  "create_bucket_request SILVER_BUCKET AWS_REGION
     \<in> set (new_calls start (snd (create_data_lake (reliable accept_all) start)))
   \<and> operation (create_bucket_request SILVER_BUCKET AWS_REGION) \<noteq> ''delete_bucket''
   \<and> create_bucket_request SILVER_BUCKET AWS_REGION
     \<in> set (new_calls (snd (bronze_run (reliable accept_all) start))
              (snd (create_data_lake (reliable accept_all) start)))
   \<and> bucket_of (create_bucket_request SILVER_BUCKET AWS_REGION) \<noteq> Some (PStr BRONZE_BUCKET)
   \<and> create_bucket_request GOLD_BUCKET AWS_REGION
     \<in> set (new_calls (snd (silver_run (reliable accept_all) start))
              (snd (create_data_lake (reliable accept_all) start)))
   \<and> bucket_of (create_bucket_request GOLD_BUCKET AWS_REGION) \<noteq> Some (PStr SILVER_BUCKET)"
proof -
  let ?s = "create_bucket_request SILVER_BUCKET AWS_REGION"
  let ?g = "create_bucket_request GOLD_BUCKET AWS_REGION"
  let ?final = "snd (create_data_lake (reliable accept_all) start)"
  have m1: "?s \<in> set (new_calls start ?final)"
    by (simp add: new_calls_def accept_all_calls start_def) (simp add: requests_def)
  have m2: "?s \<in> set (new_calls (snd (bronze_run (reliable accept_all) start)) ?final)"
    by (simp add: new_calls_def accept_all_calls start_def) (simp add: requests_def)
  have m3: "?g \<in> set (new_calls (snd (silver_run (reliable accept_all) start)) ?final)"
    by (simp add: new_calls_def accept_all_calls start_def) (simp add: requests_def)
  note T = create_data_lake_no_delete_no_revisit [of start "reliable accept_all"]
  from T m1 have "operation ?s \<in> {''create_bucket'', ''put_bucket_versioning'',
        ''put_bucket_encryption'', ''put_public_access_block'',
        ''put_bucket_lifecycle_configuration'', ''put_bucket_tagging''}"
    by blast
  then have 1: "operation ?s \<noteq> ''delete_bucket''" by auto
  from T m2 have 2: "bucket_of ?s \<noteq> Some (PStr BRONZE_BUCKET)" by blast
  from T m3 have 3: "bucket_of ?g \<noteq> Some (PStr SILVER_BUCKET)" by blast
  from m1 m2 m3 1 2 3 show ?thesis by blast
qed

end
